theory Spec2Isabelle
  imports Main "HOL-Library.Word"
begin

section \<open>Go values shared by the packages\<close>

text \<open>
  A non-nil Go \<open>error\<close> is a \<open>go_error\<close>; a nilable \<open>error\<close> is a
  \<open>go_error option\<close> with \<open>None\<close> for nil. A function returning \<open>(T, error)\<close>
  returns \<open>go_error + T\<close>, \<open>Inl\<close> carrying the error.
\<close>

datatype go_error = GoError string

type_synonym bytes = string

text \<open>\<open>time.Duration\<close> is a count of nanoseconds; the code only stores and compares it.\<close>

type_synonym Duration = int

definition Minute :: Duration where
  "Minute = 60 * 1000000000"

subsection \<open>fmt.Sprintf with the verb %d\<close>

definition digit :: "nat \<Rightarrow> char" where
  "digit d = ''0123456789'' ! d"

function fmt_nat :: "nat \<Rightarrow> string" where
  "fmt_nat n = (if n < 10 then [digit n] else fmt_nat (n div 10) @ [digit (n mod 10)])"
  by pat_completeness auto
termination
  by (relation "measure id") auto

declare fmt_nat.simps [simp del]

definition fmt_d :: "int \<Rightarrow> string" where
  "fmt_d i = (if i < 0 then CHR ''-'' # fmt_nat (nat (- i)) else fmt_nat (nat i))"

section \<open>Package mqtt: the transport client\<close>

subsection \<open>crypto/tls and crypto/x509 values\<close>

text \<open>
  A certificate pool is modelled by the PEM blocks appended to it, in order; a loaded
  key pair by the two paths it was loaded from and the bytes found there.
\<close>

type_synonym CertPool = "bytes list"

definition NewCertPool :: CertPool where
  "NewCertPool = []"

definition AppendCertsFromPEM :: "CertPool \<Rightarrow> bytes \<Rightarrow> CertPool" where
  "AppendCertsFromPEM pool pem = pool @ [pem]"

datatype Certificate = X509KeyPair bytes bytes

datatype ClientAuthType = NoClientCert | RequestClientCert | RequireAnyClientCert
  | VerifyClientCertIfGiven | RequireAndVerifyClientCert

record tls_Config =
  InsecureSkipVerify :: bool
  RootCAs :: "CertPool option"
  Certificates :: "Certificate list"
  ClientAuth :: ClientAuthType

subsection \<open>The paho client library, as far as the package drives it\<close>

text \<open>
  Handlers are Go function values; only their identity matters here. \<open>None\<close> is a nil
  handler.
\<close>

datatype MessageHandler = defaultMessageHandler | userMessageHandler nat
datatype OnConnectHandler = defaultOnConnectHandler | userOnConnectHandler nat
datatype ConnectionLostHandler = defaultConnectionLostHandler | userConnectionLostHandler nat

text \<open>
  A token is what the library hands back for an asynchronous operation. The package calls
  three of its methods. \<open>Wait\<close> is \<open>None\<close> when the call never returns;
  \<open>WaitTimeout d\<close> is the result for the duration \<open>d\<close>; \<open>Error\<close> is the error
  the operation ended with, nil when it succeeded.
\<close>

record Token =
  Wait :: "bool option"
  WaitTimeout :: "Duration \<Rightarrow> bool"
  Error :: "go_error option"

text \<open>
  The client options record what each setter was given. \<open>Servers\<close> holds the broker
  URLs that \<open>AddBroker\<close> has added; every other field holds the last value set.
\<close>

type_synonym URL = string

record ClientOptions =
  Servers :: "URL list"
  opt_ClientID :: string
  opt_Username :: string
  opt_Password :: string
  opt_TLSConfig :: "tls_Config option"
  opt_DefaultPublishHandler :: "MessageHandler option"
  opt_AutoReconnect :: bool
  opt_KeepAlive :: Duration
  opt_CleanSession :: bool
  opt_OnConnect :: "OnConnectHandler option"
  opt_OnConnectionLost :: "ConnectionLostHandler option"

definition SetClientID :: "ClientOptions \<Rightarrow> string \<Rightarrow> ClientOptions" where
  "SetClientID opts v = opts\<lparr>opt_ClientID := v\<rparr>"

definition SetUsername :: "ClientOptions \<Rightarrow> string \<Rightarrow> ClientOptions" where
  "SetUsername opts v = opts\<lparr>opt_Username := v\<rparr>"

definition SetPassword :: "ClientOptions \<Rightarrow> string \<Rightarrow> ClientOptions" where
  "SetPassword opts v = opts\<lparr>opt_Password := v\<rparr>"

definition SetTLSConfig :: "ClientOptions \<Rightarrow> tls_Config \<Rightarrow> ClientOptions" where
  "SetTLSConfig opts v = opts\<lparr>opt_TLSConfig := Some v\<rparr>"

definition SetDefaultPublishHandler :: "ClientOptions \<Rightarrow> MessageHandler option \<Rightarrow> ClientOptions" where
  "SetDefaultPublishHandler opts v = opts\<lparr>opt_DefaultPublishHandler := v\<rparr>"

definition SetAutoReconnect :: "ClientOptions \<Rightarrow> bool \<Rightarrow> ClientOptions" where
  "SetAutoReconnect opts v = opts\<lparr>opt_AutoReconnect := v\<rparr>"

definition SetKeepAlive :: "ClientOptions \<Rightarrow> Duration \<Rightarrow> ClientOptions" where
  "SetKeepAlive opts v = opts\<lparr>opt_KeepAlive := v\<rparr>"

definition SetCleanSession :: "ClientOptions \<Rightarrow> bool \<Rightarrow> ClientOptions" where
  "SetCleanSession opts v = opts\<lparr>opt_CleanSession := v\<rparr>"

definition SetOnConnectHandler :: "ClientOptions \<Rightarrow> OnConnectHandler option \<Rightarrow> ClientOptions" where
  "SetOnConnectHandler opts v = opts\<lparr>opt_OnConnect := v\<rparr>"

definition SetConnectionLostHandler ::
    "ClientOptions \<Rightarrow> ConnectionLostHandler option \<Rightarrow> ClientOptions" where
  "SetConnectionLostHandler opts v = opts\<lparr>opt_OnConnectionLost := v\<rparr>"

text \<open>
  The payload of a publish is an \<open>interface{}\<close>; the cases are the dynamic types a
  caller can pass.
\<close>

datatype payload = StringPayload string | BytesPayload "8 word list" | OtherPayload

record publish_call =
  pc_topic :: string
  pc_qos :: "8 word"
  pc_retained :: bool
  pc_payload :: payload

text \<open>
  A library client: the options it was created from, the token the broker side answers
  a publish with (it may depend on the publishes made before), and the log of every
  \<open>Publish\<close> call made through it.
\<close>

record mqtt_Client =
  client_options :: ClientOptions
  publish_token :: "publish_call list \<Rightarrow> publish_call \<Rightarrow> Token"
  published :: "publish_call list"

definition Publish ::
    "mqtt_Client \<Rightarrow> string \<Rightarrow> 8 word \<Rightarrow> bool \<Rightarrow> payload \<Rightarrow> Token \<times> mqtt_Client" where
  "Publish c topic qos retained msg =
     (let call = \<lparr>pc_topic = topic, pc_qos = qos, pc_retained = retained, pc_payload = msg\<rparr>
      in (publish_token c (published c) call, c\<lparr>published := published c @ [call]\<rparr>))"

text \<open>
  Everything outside the package: the file system behind \<open>os.ReadFile\<close> and
  \<open>tls.LoadX509KeyPair\<close>, the library's fresh options, what the library's
  \<open>AddBroker\<close> makes of an address (the URL it parses the address to, or the parse
  error), and the broker's answers.
\<close>

record world =
  ReadFile :: "string \<Rightarrow> go_error + bytes"
  LoadX509KeyPair :: "string \<Rightarrow> string \<Rightarrow> go_error + Certificate"
  NewClientOptions :: ClientOptions
  broker_URL :: "string \<Rightarrow> go_error + URL"
  connect_token :: "ClientOptions \<Rightarrow> Token"
  broker_publish_token :: "ClientOptions \<Rightarrow> publish_call list \<Rightarrow> publish_call \<Rightarrow> Token"

text \<open>
  \<open>AddBroker\<close> adds the URL of an address that parses and leaves the options as they
  are, logging a warning, for an address that does not.
\<close>

definition AddBroker :: "world \<Rightarrow> ClientOptions \<Rightarrow> string \<Rightarrow> ClientOptions" where
  "AddBroker w opts server =
     (case broker_URL w server of
        Inl err \<Rightarrow> opts
      | Inr brokerURI \<Rightarrow> opts\<lparr>Servers := Servers opts @ [brokerURI]\<rparr>)"

definition NewClient :: "world \<Rightarrow> ClientOptions \<Rightarrow> mqtt_Client" where
  "NewClient w opts =
     \<lparr>client_options = opts, publish_token = broker_publish_token w opts, published = []\<rparr>"

subsection \<open>Client and ClientConfig\<close>

definition Qos0 :: "8 word" where "Qos0 = 0"
definition Qos1 :: "8 word" where "Qos1 = 1"
definition Qos2 :: "8 word" where "Qos2 = 2"

record Client =
  client :: mqtt_Client

record ClientConfig =
  Broker :: string
  Port :: int
  ClientID :: string
  Username :: string
  Password :: string
  CAPath :: string
  ClientCrtPath :: string
  ClientKeyPath :: string
  CleanSession :: bool
  KeepAlive :: Duration
  DefaultMessageHandler :: "MessageHandler option"
  OnConnectHandler :: "OnConnectHandler option"
  ConnectionLostHandler :: "ConnectionLostHandler option"

subsection \<open>newTlsConfig\<close>

definition newTlsConfig :: "world \<Rightarrow> ClientConfig \<Rightarrow> go_error + tls_Config" where
  "newTlsConfig w cfg =
     (let config = \<lparr>InsecureSkipVerify = True, RootCAs = None, Certificates = [],
                     ClientAuth = NoClientCert\<rparr>;
          certpool = NewCertPool
      in case ReadFile w (CAPath cfg) of
           Inl err \<Rightarrow> Inl err
         | Inr ca \<Rightarrow>
             (let certpool = AppendCertsFromPEM certpool ca;
                  config = config\<lparr>RootCAs := Some certpool\<rparr>
              in if ClientCrtPath cfg \<noteq> [] then
                   (case LoadX509KeyPair w (ClientCrtPath cfg) (ClientKeyPath cfg) of
                      Inl err \<Rightarrow> Inl err
                    | Inr clientKeyPair \<Rightarrow>
                        Inr (config\<lparr>Certificates := [clientKeyPair],
                                    ClientAuth := NoClientCert\<rparr>))
                 else Inr config))"

subsection \<open>NewMqttClient\<close>

text \<open>
  What a call of \<open>NewMqttClient\<close> leaves behind: the value returned (\<open>None\<close> when the
  call blocks for ever in \<open>token.Wait()\<close>), the configuration as the call has updated it
  through the pointer, and the options of the client it called \<open>Connect\<close> on
  (\<open>None\<close> when it returned before connecting).
\<close>

record NewMqttClient_outcome =
  returned :: "(go_error + Client) option"
  cfg_after :: ClientConfig
  connected_with :: "ClientOptions option"

text \<open>The first part of the body, up to the choice of the broker address.\<close>

definition broker_setup :: "world \<Rightarrow> ClientConfig \<Rightarrow> go_error + (ClientOptions \<times> string)" where
  "broker_setup w cfg =
     (let opts = NewClientOptions w;
          opts = SetClientID opts (ClientID cfg)
      in if CAPath cfg \<noteq> [] then
           (case newTlsConfig w cfg of
              Inl err \<Rightarrow> Inl err
            | Inr tlsConfig \<Rightarrow>
                Inr (SetTLSConfig opts tlsConfig,
                     ''ssl://'' @ Broker cfg @ '':'' @ fmt_d (Port cfg)))
         else
           Inr (SetPassword (SetUsername opts (Username cfg)) (Password cfg),
                ''tcp://'' @ Broker cfg @ '':'' @ fmt_d (Port cfg)))"

text \<open>The defaults written back into the configuration.\<close>

definition fill_defaults :: "ClientConfig \<Rightarrow> ClientConfig" where
  "fill_defaults cfg =
     (let cfg = (if DefaultMessageHandler cfg = None
                 then cfg\<lparr>DefaultMessageHandler := Some defaultMessageHandler\<rparr> else cfg);
          cfg = (if OnConnectHandler cfg = None
                 then cfg\<lparr>OnConnectHandler := Some defaultOnConnectHandler\<rparr> else cfg);
          cfg = (if ConnectionLostHandler cfg = None
                 then cfg\<lparr>ConnectionLostHandler := Some defaultConnectionLostHandler\<rparr> else cfg);
          cfg = (if KeepAlive cfg = 0 then cfg\<lparr>KeepAlive := Minute\<rparr> else cfg)
      in cfg)"

text \<open>
  The last part of the body: the client is created from the options, \<open>Connect\<close> is
  called, and the connect error is returned when the token has been waited for and
  carries one.
\<close>

definition connect_and_return :: "world \<Rightarrow> ClientOptions \<Rightarrow> (go_error + Client) option" where
  "connect_and_return w opts =
     (let c = NewClient w opts;
          token = connect_token w opts
      in case Wait token of
           None \<Rightarrow> None
         | Some waited \<Rightarrow>
             (case Error token of
                Some err \<Rightarrow> if waited then Some (Inl err) else Some (Inr \<lparr>client = c\<rparr>)
              | None \<Rightarrow> Some (Inr \<lparr>client = c\<rparr>)))"

definition NewMqttClient :: "world \<Rightarrow> ClientConfig \<Rightarrow> NewMqttClient_outcome" where
  "NewMqttClient w cfg =
     (case broker_setup w cfg of
        Inl err \<Rightarrow> \<lparr>returned = Some (Inl err), cfg_after = cfg, connected_with = None\<rparr>
      | Inr (opts, broker) \<Rightarrow>
          (let opts = AddBroker w opts broker;
               cfg = fill_defaults cfg;
               opts = SetDefaultPublishHandler opts (DefaultMessageHandler cfg);
               opts = SetAutoReconnect opts True;
               opts = SetKeepAlive opts (KeepAlive cfg);
               opts = SetCleanSession opts (CleanSession cfg);
               opts = SetOnConnectHandler opts (OnConnectHandler cfg);
               opts = SetConnectionLostHandler opts (ConnectionLostHandler cfg)
           in \<lparr>returned = connect_and_return w opts,
                cfg_after = cfg,
                connected_with = Some opts\<rparr>))"

subsection \<open>Publishing\<close>

text \<open>
  Each operation returns the value the Go method returns (\<open>None\<close> when it never
  returns) and the client after the call.
\<close>

definition PubWithTimeout ::
    "Client \<Rightarrow> string \<Rightarrow> 8 word \<Rightarrow> payload \<Rightarrow> Duration \<Rightarrow> bool option \<times> Client" where
  "PubWithTimeout c topic qos msg timeout =
     (case Publish (client c) topic qos True msg of
        (token, mc) \<Rightarrow> (Some (WaitTimeout token timeout), c\<lparr>client := mc\<rparr>))"

definition Pub :: "Client \<Rightarrow> string \<Rightarrow> 8 word \<Rightarrow> payload \<Rightarrow> bool option \<times> Client" where
  "Pub c topic qos msg =
     (case Publish (client c) topic qos True msg of
        (token, mc) \<Rightarrow> (Wait token, c\<lparr>client := mc\<rparr>))"

subsection \<open>Sequences of publish operations\<close>

text \<open>
  The two publish operations the client exports, as values, and a client driven through
  a list of them.
\<close>

datatype publish_op =
    Op_Pub string "8 word" payload
  | Op_PubWithTimeout string "8 word" payload Duration

fun run_op :: "Client \<Rightarrow> publish_op \<Rightarrow> Client" where
  "run_op c (Op_Pub topic qos msg) = snd (Pub c topic qos msg)"
| "run_op c (Op_PubWithTimeout topic qos msg timeout) =
     snd (PubWithTimeout c topic qos msg timeout)"

definition run_ops :: "Client \<Rightarrow> publish_op list \<Rightarrow> Client" where
  "run_ops c ops = foldl run_op c ops"

section \<open>Package root: the run command\<close>

text \<open>
  The options of the command, as far as \<open>runRootCommand\<close> reads them.
\<close>

record Opts =
  OperatingSystem :: string
  MqttBroker :: string
  MqttPort :: int
  MqttUsername :: string
  MqttPassword :: string
  MqttCAPath :: string
  MqttClientCrtPath :: string
  MqttClientKeyPath :: string
  KubeConfigPath :: string

record BuildBaseRegisterControllerConfig =
  MqttConfig :: ClientConfig
  cfg_KubeConfigPath :: string

text \<open>
  The register controller is used through four methods. What they do to the command is
  what this record holds: whether \<open>Run\<close> returns to its caller, which case of the
  \<open>select\<close> over \<open>ctx.Done()\<close> and \<open>Done()\<close> becomes ready (\<open>None\<close> when neither
  ever does), and the value \<open>Err()\<close> gives when it is read after the \<open>select\<close>.
\<close>

datatype select_case = ctx_Done | registerController_Done

record RegisterController =
  Run_returns :: bool
  select_ready :: "select_case option"
  Err :: "go_error option"

record root_env =
  setupTracing :: "Opts \<Rightarrow> go_error option"
  uuid_New_String :: string
  NewBaseRegisterController ::
    "BuildBaseRegisterControllerConfig \<Rightarrow> RegisterController option \<times> go_error option"

datatype root_step =
    Called_setupTracing
  | Called_NewBaseRegisterController BuildBaseRegisterControllerConfig
  | Called_Run
  | Selected select_case
  | Called_Err

text \<open>
  \<open>root_returned\<close> is \<open>None\<close> when the command never returns, \<open>Some None\<close> when it
  returns nil and \<open>Some (Some e)\<close> when it returns the error \<open>e\<close>; \<open>root_steps\<close>
  lists the calls it made, in order.
\<close>

record root_outcome =
  root_returned :: "go_error option option"
  root_steps :: "root_step list"

definition controller_config :: "root_env \<Rightarrow> Opts \<Rightarrow> BuildBaseRegisterControllerConfig" where
  "controller_config env c =
     (let clientID = uuid_New_String env
      in \<lparr>MqttConfig =
            \<lparr>Broker = MqttBroker c,
             Port = MqttPort c,
             ClientID = ''module-controller@@@'' @ clientID,
             Username = MqttUsername c,
             Password = MqttPassword c,
             CAPath = MqttCAPath c,
             ClientCrtPath = MqttClientCrtPath c,
             ClientKeyPath = MqttClientKeyPath c,
             CleanSession = True,
             KeepAlive = 0,
             DefaultMessageHandler = None,
             OnConnectHandler = None,
             ConnectionLostHandler = None\<rparr>,
          cfg_KubeConfigPath = KubeConfigPath c\<rparr>)"

definition runRootCommand :: "root_env \<Rightarrow> Opts \<Rightarrow> root_outcome" where
  "runRootCommand env c =
     (case setupTracing env c of
        Some err \<Rightarrow> \<lparr>root_returned = Some (Some err), root_steps = [Called_setupTracing]\<rparr>
      | None \<Rightarrow>
          (let config = controller_config env c;
               steps = [Called_setupTracing, Called_NewBaseRegisterController config]
           in case NewBaseRegisterController env config of
                (_, Some err) \<Rightarrow> \<lparr>root_returned = Some (Some err), root_steps = steps\<rparr>
              | (None, None) \<Rightarrow>
                  \<lparr>root_returned = Some (Some (GoError ''register controller is nil'')),
                   root_steps = steps\<rparr>
              | (Some registerController, None) \<Rightarrow>
                  (if \<not> Run_returns registerController
                   then \<lparr>root_returned = None, root_steps = steps @ [Called_Run]\<rparr>
                   else case select_ready registerController of
                          None \<Rightarrow> \<lparr>root_returned = None, root_steps = steps @ [Called_Run]\<rparr>
                        | Some which \<Rightarrow>
                            \<lparr>root_returned = Some (Err registerController),
                             root_steps = steps @ [Called_Run, Selected which, Called_Err]\<rparr>)))"

text \<open>
  Modelled from the spec: the process entry point that turns the command's result into an
  exit status is not among the sources. The spec's words: the command exits 0 on clean
  shutdown and non-zero if \<open>Err()\<close> is non-nil.
\<close>

definition exit_status :: "go_error option \<Rightarrow> nat" where
  "exit_status r = (case r of None \<Rightarrow> 0 | Some err \<Rightarrow> 1)"

section \<open>Package common: the model translator\<close>

text \<open>
  The methods of \<open>ModelUtils\<close> are exercised by the package's tests, which give their
  names, argument types and the fields they read and write. Their bodies are modelled
  from the specification.
\<close>

record BizModel =
  BizName :: string
  BizVersion :: string
  BizUrl :: string

record ArkBizInfo =
  info_BizName :: string
  info_BizState :: string
  info_BizVersion :: string
  info_MainClass :: string
  info_WebContextPath :: string

record EnvVar =
  env_Name :: string
  env_Value :: string

record Container =
  Name :: string
  Image :: string
  WorkingDir :: string
  Env :: "EnvVar list"

subsection \<open>CmpBizModel\<close>

text \<open>
  Modelled from the spec: the body of \<open>ModelUtils.CmpBizModel\<close> is missing. The spec's
  words: true iff \<open>(a.Name, a.Version) == (b.Name, b.Version)\<close>.
\<close>

definition CmpBizModel :: "BizModel \<Rightarrow> BizModel \<Rightarrow> bool" where
  "CmpBizModel a b = ((BizName a, BizVersion a) = (BizName b, BizVersion b))"

subsection \<open>TranslateCoreV1ContainerToBizModel\<close>

text \<open>
  Modelled from the spec: the body of \<open>ModelUtils.TranslateCoreV1ContainerToBizModel\<close>
  is missing. The spec's words: Name = container name; Url = container image field;
  Version = value of env var \<open>BIZ_VERSION\<close> or empty string. The variables are searched
  in the order of the container's list.
\<close>

fun getBizVersion :: "EnvVar list \<Rightarrow> string" where
  "getBizVersion [] = []"
| "getBizVersion (e # es) =
     (if env_Name e = ''BIZ_VERSION'' then env_Value e else getBizVersion es)"

definition TranslateCoreV1ContainerToBizModel :: "Container \<Rightarrow> BizModel" where
  "TranslateCoreV1ContainerToBizModel container =
     \<lparr>BizName = Name container,
      BizVersion = getBizVersion (Env container),
      BizUrl = Image container\<rparr>"

subsection \<open>BuildVirtualNode\<close>

text \<open>
  The taint that marks a node as virtual is one value; a node handed in may carry any
  other taints, given by key, value and effect.
\<close>

datatype Taint = VirtualNodeTaint | OtherTaint string string string

datatype NodePhase = NodePhaseUnset | NodePending | NodeRunning | NodeTerminated

record NodeSpec =
  Taints :: "Taint list"

record NodeStatus =
  Phase :: NodePhase
  Addresses :: "string list"

record Node =
  Spec :: NodeSpec
  Status :: NodeStatus

record BuildVirtualNodeConfig =
  NodeIP :: string
  bvn_BizName :: string
  TechStack :: string
  Version :: string

text \<open>
  Modelled from the spec: the body of \<open>ModelUtils.BuildVirtualNode\<close> is missing. The
  spec's words: populates a Node's spec/status/taints from the config; always sets exactly
  one taint and the pending phase. The node's address is the configured node IP.
\<close>

definition BuildVirtualNode :: "BuildVirtualNodeConfig \<Rightarrow> Node \<Rightarrow> Node" where
  "BuildVirtualNode config node =
     node\<lparr>Spec := (Spec node)\<lparr>Taints := [VirtualNodeTaint]\<rparr>,
          Status := (Status node)\<lparr>Phase := NodePending, Addresses := [NodeIP config]\<rparr>\<rparr>"

subsection \<open>TranslateArkBizInfoToV1ContainerStatus\<close>










section \<open>Concrete inputs\<close>

text \<open>
  A world in which the CA bundle and one client key pair exist, an address parses when
  what follows its last colon is a string of digits, the broker accepts the connection of
  a client that has a server, and every publish ends with the error the library reports
  for a client that has lost its connection.
\<close>

definition fresh_options :: ClientOptions where
  "fresh_options =
     \<lparr>Servers = [], opt_ClientID = [], opt_Username = [], opt_Password = [],
      opt_TLSConfig = None, opt_DefaultPublishHandler = None, opt_AutoReconnect = True,
      opt_KeepAlive = 30 * 1000000000, opt_CleanSession = True, opt_OnConnect = None,
      opt_OnConnectionLost = None\<rparr>"

definition completed_token :: Token where
  "completed_token = \<lparr>Wait = Some True, WaitTimeout = (\<lambda>d. True), Error = None\<rparr>"

definition failed_token :: Token where
  "failed_token =
     \<lparr>Wait = Some True, WaitTimeout = (\<lambda>d. True), Error = Some (GoError ''not Connected'')\<rparr>"

definition no_servers_token :: Token where
  "no_servers_token =
     \<lparr>Wait = Some True, WaitTimeout = (\<lambda>d. True),
      Error = Some (GoError ''no servers defined to connect to'')\<rparr>"

definition test_broker_URL :: "string \<Rightarrow> go_error + URL" where
  "test_broker_URL server =
     (let port = rev (takeWhile (\<lambda>c. c \<noteq> CHR '':'') (rev server))
      in if list_all (\<lambda>c. c \<in> set ''0123456789'') port then Inr server
         else Inl (GoError ''invalid port after host''))"

definition test_world :: world where
  "test_world =
     \<lparr>ReadFile = (\<lambda>p. if p = ''/etc/mqtt/ca.crt'' then Inr ''CA-PEM''
                       else Inl (GoError ''no such file or directory'')),
      LoadX509KeyPair =
        (\<lambda>crt key. if crt = ''/etc/mqtt/client.crt'' \<and> key = ''/etc/mqtt/client.key''
                    then Inr (X509KeyPair ''CRT-PEM'' ''KEY-PEM'')
                    else Inl (GoError ''no such file or directory'')),
      NewClientOptions = fresh_options,
      broker_URL = test_broker_URL,
      connect_token = (\<lambda>opts. if Servers opts = [] then no_servers_token else completed_token),
      broker_publish_token = (\<lambda>opts history call. failed_token)\<rparr>"

text \<open>The configuration of the test suite, and two TLS variants of it.\<close>

definition plain_cfg :: ClientConfig where
  "plain_cfg =
     \<lparr>Broker = ''broker.emqx.io'', Port = 1883, ClientID = ''base-mqtt-client'',
      Username = ''emqx'', Password = ''public'', CAPath = [], ClientCrtPath = [],
      ClientKeyPath = [], CleanSession = False, KeepAlive = 60,
      DefaultMessageHandler = None, OnConnectHandler = None, ConnectionLostHandler = None\<rparr>"

definition tls_cfg :: ClientConfig where
  "tls_cfg = plain_cfg\<lparr>Port := 8883, CAPath := ''/etc/mqtt/ca.crt'',
     ClientCrtPath := ''/etc/mqtt/client.crt'', ClientKeyPath := ''/etc/mqtt/client.key''\<rparr>"

definition missing_ca_cfg :: ClientConfig where
  "missing_ca_cfg = plain_cfg\<lparr>Port := 8883, CAPath := ''/missing/ca.crt''\<rparr>"

definition negative_port_cfg :: ClientConfig where
  "negative_port_cfg = plain_cfg\<lparr>Broker := ''127.0.0.1'', Port := - 12\<rparr>"

definition test_client :: Client where
  "test_client = \<lparr>client = NewClient test_world fresh_options\<rparr>"

text \<open>Controllers and environments for the run command.\<close>

definition test_opts :: Opts where
  "test_opts =
     \<lparr>OperatingSystem = ''linux'', MqttBroker = ''broker.emqx.io'', MqttPort = 1883,
      MqttUsername = ''emqx'', MqttPassword = ''public'', MqttCAPath = [],
      MqttClientCrtPath = [], MqttClientKeyPath = [], KubeConfigPath = ''/root/.kube/config''\<rparr>"

definition clean_controller :: RegisterController where
  "clean_controller =
     \<lparr>Run_returns = True, select_ready = Some ctx_Done, Err = None\<rparr>"

definition errored_controller :: RegisterController where
  "errored_controller =
     \<lparr>Run_returns = True, select_ready = Some registerController_Done,
      Err = Some (GoError ''register node failed'')\<rparr>"

definition env_with :: "RegisterController \<Rightarrow> root_env" where
  "env_with rc =
     \<lparr>setupTracing = (\<lambda>c. None), uuid_New_String = ''6ba7b810-9dad-11d1-80b4-00c04fd430c8'',
      NewBaseRegisterController = (\<lambda>config. (Some rc, None))\<rparr>"

definition env_failing :: root_env where
  "env_failing =
     \<lparr>setupTracing = (\<lambda>c. None), uuid_New_String = ''6ba7b810-9dad-11d1-80b4-00c04fd430c8'',
      NewBaseRegisterController = (\<lambda>config. (None, Some (GoError ''not Connected'')))\<rparr>"

text \<open>The values of the package's tests.\<close>

definition test_bizModel :: BizModel where
  "test_bizModel =
     \<lparr>BizName = ''test-biz'', BizVersion = ''1.1.1'', BizUrl = ''file:///test/test1.jar''\<rparr>"

definition info_in_state :: "string \<Rightarrow> ArkBizInfo" where
  "info_in_state s =
     \<lparr>info_BizName = ''test-biz'', info_BizState = s, info_BizVersion = ''1.1.1'',
      info_MainClass = [], info_WebContextPath = []\<rparr>"

definition test_container :: Container where
  "test_container =
     \<lparr>Name = ''test_container'', Image = ''file:///test/test1'', WorkingDir = ''/home'',
      Env = [\<lparr>env_Name = ''BIZ_VERSION'', env_Value = ''1.1.1''\<rparr>]\<rparr>"

definition bizModel1 :: BizModel where
  "bizModel1 = \<lparr>BizName = ''test-biz1'', BizVersion = ''0.0.1'', BizUrl = []\<rparr>"

definition bizModel2 :: BizModel where
  "bizModel2 = \<lparr>BizName = ''test-biz1'', BizVersion = ''0.0.2'', BizUrl = []\<rparr>"

definition bizModel3 :: BizModel where
  "bizModel3 = \<lparr>BizName = ''test-biz2'', BizVersion = ''0.0.1'', BizUrl = []\<rparr>"

definition empty_node :: Node where
  "empty_node =
     \<lparr>Spec = \<lparr>Taints = []\<rparr>, Status = \<lparr>Phase = NodePhaseUnset, Addresses = []\<rparr>\<rparr>"

definition tainted_node :: Node where
  "tainted_node =
     \<lparr>Spec = \<lparr>Taints = [OtherTaint ''dedicated'' ''gpu'' ''NoSchedule'',
                          OtherTaint ''node.kubernetes.io/unreachable'' [] ''NoExecute'']\<rparr>,
      Status = \<lparr>Phase = NodeRunning, Addresses = [''10.0.0.7'']\<rparr>\<rparr>"

definition test_node_config :: BuildVirtualNodeConfig where
  "test_node_config =
     \<lparr>NodeIP = ''127.0.0.1'', bvn_BizName = ''test'', TechStack = ''java'',
      Version = ''1.1.1''\<rparr>"

section \<open>The transport client: theorems\<close>

lemmas setters = SetClientID_def SetUsername_def SetPassword_def SetTLSConfig_def AddBroker_def
  SetDefaultPublishHandler_def SetAutoReconnect_def SetKeepAlive_def SetCleanSession_def
  SetOnConnectHandler_def SetConnectionLostHandler_def

lemmas test_inputs = test_world_def fresh_options_def completed_token_def failed_token_def
  no_servers_token_def test_broker_URL_def plain_cfg_def tls_cfg_def missing_ca_cfg_def
  negative_port_cfg_def test_client_def

lemma fmt_d_examples:
  "fmt_d 1883 = ''1883''" "fmt_d 8883 = ''8883''" "fmt_d 0 = ''0''" "fmt_d (- 12) = ''-12''"
  by (simp_all add: fmt_d_def fmt_nat.simps digit_def)

subsection \<open>What newTlsConfig returns\<close>

lemma newTlsConfig_Inr:
  assumes "newTlsConfig w cfg = Inr tc"
  shows "InsecureSkipVerify tc"
    and "\<exists>ca. ReadFile w (CAPath cfg) = Inr ca \<and> RootCAs tc = Some [ca]"
    and "ClientCrtPath cfg = [] \<Longrightarrow> Certificates tc = []"
    and "ClientCrtPath cfg \<noteq> [] \<Longrightarrow>
           \<exists>kp. LoadX509KeyPair w (ClientCrtPath cfg) (ClientKeyPath cfg) = Inr kp
                \<and> Certificates tc = [kp]"
  using assms
  by (auto simp: newTlsConfig_def NewCertPool_def AppendCertsFromPEM_def Let_def
           split: sum.splits if_splits)

lemma newTlsConfig_Inl:
  assumes "newTlsConfig w cfg = Inl err"
  shows "ReadFile w (CAPath cfg) = Inl err
         \<or> (ClientCrtPath cfg \<noteq> []
            \<and> LoadX509KeyPair w (ClientCrtPath cfg) (ClientKeyPath cfg) = Inl err)"
  using assms
  by (auto simp: newTlsConfig_def Let_def split: sum.splits if_splits)

subsection \<open>What NewMqttClient connects with\<close>

lemma connect_and_return_failed:
  assumes "Wait (connect_token w opts) = Some True"
    and "Error (connect_token w opts) = Some err"
  shows "connect_and_return w opts = Some (Inl err)"
  using assms by (simp add: connect_and_return_def Let_def)

lemma connect_and_return_connected:
  assumes "Wait (connect_token w opts) = Some waited"
    and "Error (connect_token w opts) = None"
  shows "connect_and_return w opts = Some (Inr \<lparr>client = NewClient w opts\<rparr>)"
  using assms by (simp add: connect_and_return_def Let_def)

lemma connected_with_secure:
  assumes "CAPath cfg \<noteq> []" and "newTlsConfig w cfg = Inr tc"
  shows "\<exists>opts. connected_with (NewMqttClient w cfg) = Some opts
           \<and> Servers opts = Servers (NewClientOptions w)
             @ (case broker_URL w (''ssl://'' @ Broker cfg @ '':'' @ fmt_d (Port cfg)) of
                  Inl err \<Rightarrow> [] | Inr brokerURI \<Rightarrow> [brokerURI])
           \<and> opt_TLSConfig opts = Some tc
           \<and> opt_Username opts = opt_Username (NewClientOptions w)
           \<and> opt_Password opts = opt_Password (NewClientOptions w)
           \<and> returned (NewMqttClient w cfg) = connect_and_return w opts"
  using assms
  by (cases "broker_URL w (''ssl://'' @ Broker cfg @ '':'' @ fmt_d (Port cfg))")
     (simp_all add: NewMqttClient_def broker_setup_def Let_def setters)






text \<open>
  C6: for a configuration with a non-empty CA path whose CA file is readable, newTlsConfig
  fails only when a client key pair is asked for and does not load; every configuration
  it produces has InsecureSkipVerify set and the CA bundle installed as its root pool, and
  it is the TLS configuration NewMqttClient connects with.
\<close>

theorem newTlsConfig_InsecureSkipVerify:
  assumes "CAPath cfg \<noteq> []" and "ReadFile w (CAPath cfg) = Inr ca"
  shows "case newTlsConfig w cfg of
           Inl err \<Rightarrow>
             ClientCrtPath cfg \<noteq> []
             \<and> LoadX509KeyPair w (ClientCrtPath cfg) (ClientKeyPath cfg) = Inl err
         | Inr tc \<Rightarrow>
             InsecureSkipVerify tc \<and> RootCAs tc = Some [ca]
             \<and> (\<exists>opts. connected_with (NewMqttClient w cfg) = Some opts
                       \<and> opt_TLSConfig opts = Some tc)"
proof (cases "newTlsConfig w cfg")
  case (Inl err)
  with newTlsConfig_Inl [OF Inl] assms(2) show ?thesis
    by simp
next
  case (Inr tc)
  have "InsecureSkipVerify tc"
    by (rule newTlsConfig_Inr(1) [OF Inr])
  moreover have "RootCAs tc = Some [ca]"
    using newTlsConfig_Inr(2) [OF Inr] assms(2) by simp
  moreover have "\<exists>opts. connected_with (NewMqttClient w cfg) = Some opts
                        \<and> opt_TLSConfig opts = Some tc"
    using connected_with_secure [OF assms(1) Inr] by blast
  ultimately show ?thesis
    using Inr by simp
qed

theorem newTlsConfig_InsecureSkipVerify_witness:
  "CAPath tls_cfg \<noteq> []
   \<and> ReadFile test_world (CAPath tls_cfg) = Inr ''CA-PEM''
   \<and> map_sum id InsecureSkipVerify (newTlsConfig test_world tls_cfg) = Inr True
   \<and> map_sum id RootCAs (newTlsConfig test_world tls_cfg) = Inr (Some [''CA-PEM''])
   \<and> map_option (map_option InsecureSkipVerify \<circ> opt_TLSConfig)
        (connected_with (NewMqttClient test_world tls_cfg)) = Some (Some True)"
  using newTlsConfig_InsecureSkipVerify [of tls_cfg test_world "''CA-PEM''"]
  by (simp add: NewMqttClient_def broker_setup_def newTlsConfig_def NewCertPool_def
        AppendCertsFromPEM_def Let_def setters test_inputs)

subsection \<open>Publishing\<close>

text \<open>What the two publish operations return is what the token's wait gives; the token's
  error is not read.\<close>

lemma Pub_returns_Wait:
  "fst (Pub c topic qos msg) = Wait (fst (Publish (client c) topic qos True msg))"
  by (simp add: Pub_def split: prod.splits)

lemma PubWithTimeout_returns_WaitTimeout:
  "fst (PubWithTimeout c topic qos msg timeout)
     = Some (WaitTimeout (fst (Publish (client c) topic qos True msg)) timeout)"
  by (simp add: PubWithTimeout_def split: prod.splits)

text \<open>
  C7, at a publish that failed: the token the library returns has completed, so its
  \<open>Wait\<close> gives true, and carries the error of the failed publish; Pub returns true,
  where the claim (and the comment on Pub) has it return false.
\<close>

theorem Pub_true_when_publish_failed:
  "Error (fst (Publish (client test_client) ''koupleless/base/health'' Qos1 True
                 (StringPayload ''{}'')))
     = Some (GoError ''not Connected'')
   \<and> fst (Pub test_client ''koupleless/base/health'' Qos1 (StringPayload ''{}'')) = Some True"
  by (simp add: Pub_def Publish_def NewClient_def Let_def test_inputs)

lemma published_Pub:
  "published (client (snd (Pub c topic qos msg)))
     = published (client c)
       @ [\<lparr>pc_topic = topic, pc_qos = qos, pc_retained = True, pc_payload = msg\<rparr>]"
  by (simp add: Pub_def Publish_def Let_def)

lemma published_PubWithTimeout:
  "published (client (snd (PubWithTimeout c topic qos msg timeout)))
     = published (client c)
       @ [\<lparr>pc_topic = topic, pc_qos = qos, pc_retained = True, pc_payload = msg\<rparr>]"
  by (simp add: PubWithTimeout_def Publish_def Let_def)

lemma published_run_op:
  "\<exists>call. published (client (run_op c op)) = published (client c) @ [call] \<and> pc_retained call"
  by (cases op) (simp_all add: published_Pub published_PubWithTimeout)

lemma published_run_ops:
  "\<exists>calls. published (client (run_ops c ops)) = published (client c) @ calls
           \<and> length calls = length ops \<and> (\<forall>call \<in> set calls. pc_retained call)"
  unfolding run_ops_def
proof (induction ops arbitrary: c)
  case Nil
  show ?case by simp
next
  case (Cons op ops)
  obtain call where call:
    "published (client (run_op c op)) = published (client c) @ [call]" "pc_retained call"
    using published_run_op by blast
  obtain calls where calls:
    "published (client (foldl run_op (run_op c op) ops)) = published (client (run_op c op)) @ calls"
    "length calls = length ops" "\<forall>x \<in> set calls. pc_retained x"
    using Cons.IH [of "run_op c op"] by blast
  have "published (client (foldl run_op c (op # ops))) = published (client c) @ (call # calls)"
    using call(1) calls(1) by simp
  moreover have "length (call # calls) = length (op # ops)"
    using calls(2) by simp
  moreover have "\<forall>x \<in> set (call # calls). pc_retained x"
    using call(2) calls(3) by simp
  ultimately show ?case by blast
qed

text \<open>
  C10: Pub and PubWithTimeout each make exactly one library publish, with the topic, QoS
  and payload they were given and the retained flag true; hence every publish that any
  sequence of the two operations adds to the client's log is a retained one.
\<close>

theorem publish_always_retained:
  "published (client (snd (Pub c topic qos msg)))
     = published (client c)
       @ [\<lparr>pc_topic = topic, pc_qos = qos, pc_retained = True, pc_payload = msg\<rparr>]
   \<and> published (client (snd (PubWithTimeout c topic qos msg timeout)))
     = published (client c)
       @ [\<lparr>pc_topic = topic, pc_qos = qos, pc_retained = True, pc_payload = msg\<rparr>]
   \<and> (\<forall>call \<in> set (drop (length (published (client c))) (published (client (run_ops c ops)))).
        pc_retained call)
   \<and> length (published (client (run_ops c ops))) = length (published (client c)) + length ops"
proof -
  obtain calls where calls:
    "published (client (run_ops c ops)) = published (client c) @ calls"
    "length calls = length ops" "\<forall>call \<in> set calls. pc_retained call"
    using published_run_ops by blast
  show ?thesis
    using calls by (simp add: published_Pub published_PubWithTimeout)
qed

theorem publish_always_retained_witness:
  "published (client (run_ops test_client
      [Op_Pub ''a/b'' Qos0 (StringPayload ''x''), Op_PubWithTimeout ''c'' Qos2 OtherPayload 5]))
   = [\<lparr>pc_topic = ''a/b'', pc_qos = 0, pc_retained = True, pc_payload = StringPayload ''x''\<rparr>,
      \<lparr>pc_topic = ''c'', pc_qos = 2, pc_retained = True, pc_payload = OtherPayload\<rparr>]
   \<and> list_all pc_retained (published (client (run_ops test_client
         [Op_Pub ''a/b'' Qos0 (StringPayload ''x''),
          Op_PubWithTimeout ''c'' Qos2 OtherPayload 5])))"
  using publish_always_retained [of test_client "''a/b''" Qos0 "StringPayload ''x''" 5
      "[Op_Pub ''a/b'' Qos0 (StringPayload ''x''), Op_PubWithTimeout ''c'' Qos2 OtherPayload 5]"]
  by (simp add: run_ops_def Pub_def PubWithTimeout_def Publish_def NewClient_def Let_def
        Qos0_def Qos2_def test_inputs)

section \<open>The run command: theorems\<close>

lemmas root_inputs = test_opts_def clean_controller_def errored_controller_def env_with_def
  env_failing_def

text \<open>
  C8: when tracing setup succeeds and the constructor returns a controller and no error,
  runRootCommand calls Run, returns only once a case of the select is ready (the context
  cancelled or the controller's Done closed), and then returns exactly the value of
  Err(): nil, exit status 0, when Err() is nil, and the non-nil error, exit status
  non-zero, otherwise. When the constructor returns an error, that error is returned and
  Run is never called.
\<close>

theorem runRootCommand_returns_Err:
  assumes "setupTracing env c = None"
  shows "(NewBaseRegisterController env (controller_config env c) = (Some rc, None) \<longrightarrow>
            root_returned (runRootCommand env c)
              = (if Run_returns rc
                 then (case select_ready rc of None \<Rightarrow> None | Some which \<Rightarrow> Some (Err rc))
                 else None)
            \<and> Called_Run \<in> set (root_steps (runRootCommand env c))
            \<and> (\<forall>r. root_returned (runRootCommand env c) = Some r \<longrightarrow>
                  r = Err rc
                  \<and> (exit_status r = 0 \<longleftrightarrow> Err rc = None)
                  \<and> (\<exists>which. select_ready rc = Some which
                        \<and> root_steps (runRootCommand env c)
                            = [Called_setupTracing,
                               Called_NewBaseRegisterController (controller_config env c),
                               Called_Run, Selected which, Called_Err])))
         \<and> (snd (NewBaseRegisterController env (controller_config env c)) = Some err \<longrightarrow>
            root_returned (runRootCommand env c) = Some (Some err)
            \<and> Called_Run \<notin> set (root_steps (runRootCommand env c)))"
proof (intro conjI impI)
  assume ok: "NewBaseRegisterController env (controller_config env c) = (Some rc, None)"
  show ret: "root_returned (runRootCommand env c)
          = (if Run_returns rc
             then (case select_ready rc of None \<Rightarrow> None | Some which \<Rightarrow> Some (Err rc))
             else None)"
    using assms ok by (simp add: runRootCommand_def Let_def split: option.splits)
  show "Called_Run \<in> set (root_steps (runRootCommand env c))"
    using assms ok by (simp add: runRootCommand_def Let_def split: option.splits)
  show "\<forall>r. root_returned (runRootCommand env c) = Some r \<longrightarrow>
          r = Err rc
          \<and> (exit_status r = 0 \<longleftrightarrow> Err rc = None)
          \<and> (\<exists>which. select_ready rc = Some which
                \<and> root_steps (runRootCommand env c)
                    = [Called_setupTracing,
                       Called_NewBaseRegisterController (controller_config env c),
                       Called_Run, Selected which, Called_Err])"
    using assms ok
    by (auto simp: runRootCommand_def Let_def exit_status_def split: option.splits if_splits)
next
  assume "snd (NewBaseRegisterController env (controller_config env c)) = Some err"
  then obtain rc' where
    failed: "NewBaseRegisterController env (controller_config env c) = (rc', Some err)"
    by (cases "NewBaseRegisterController env (controller_config env c)") simp
  show "root_returned (runRootCommand env c) = Some (Some err)"
    using assms failed by (simp add: runRootCommand_def Let_def split: option.splits)
  show "Called_Run \<notin> set (root_steps (runRootCommand env c))"
    using assms failed by (simp add: runRootCommand_def Let_def split: option.splits)
qed

theorem runRootCommand_returns_Err_witness:
  "setupTracing (env_with clean_controller) test_opts = None
   \<and> root_returned (runRootCommand (env_with clean_controller) test_opts) = Some None
   \<and> exit_status None = 0
   \<and> setupTracing (env_with errored_controller) test_opts = None
   \<and> root_returned (runRootCommand (env_with errored_controller) test_opts)
       = Some (Some (GoError ''register node failed''))
   \<and> exit_status (Some (GoError ''register node failed'')) \<noteq> 0
   \<and> setupTracing env_failing test_opts = None
   \<and> root_returned (runRootCommand env_failing test_opts) = Some (Some (GoError ''not Connected''))
   \<and> Called_Run \<notin> set (root_steps (runRootCommand env_failing test_opts))"
  using runRootCommand_returns_Err [of "env_with clean_controller" test_opts clean_controller]
    runRootCommand_returns_Err [of "env_with errored_controller" test_opts errored_controller]
    runRootCommand_returns_Err [of env_failing test_opts _ "GoError ''not Connected''"]
  by (simp add: runRootCommand_def Let_def exit_status_def root_inputs)

section \<open>The model translator: theorems\<close>

lemmas model_inputs = test_bizModel_def info_in_state_def test_container_def bizModel1_def
  bizModel2_def bizModel3_def empty_node_def tainted_node_def test_node_config_def

text \<open>
  C3: CmpBizModel a b holds exactly when the names and the versions of a and b are equal;
  CmpBizModel m m holds for every m; changing the BizUrl of either argument does not
  change the result.
\<close>

theorem CmpBizModel_iff:
  "(CmpBizModel a b \<longleftrightarrow> BizName a = BizName b \<and> BizVersion a = BizVersion b)
   \<and> CmpBizModel m m
   \<and> CmpBizModel (a\<lparr>BizUrl := u\<rparr>) (b\<lparr>BizUrl := v\<rparr>) = CmpBizModel a b"
  by (simp add: CmpBizModel_def)

theorem CmpBizModel_iff_witness:
  "CmpBizModel bizModel1 bizModel1
   \<and> \<not> CmpBizModel bizModel2 bizModel1
   \<and> \<not> CmpBizModel bizModel3 bizModel1
   \<and> CmpBizModel (bizModel1\<lparr>BizUrl := ''file:///a.jar''\<rparr>) (bizModel1\<lparr>BizUrl := ''file:///b.jar''\<rparr>)"
  using CmpBizModel_iff [of bizModel1 bizModel1 bizModel1 "''file:///a.jar''" "''file:///b.jar''"]
    CmpBizModel_iff [of bizModel2 bizModel1 bizModel1 "[]" "[]"]
    CmpBizModel_iff [of bizModel3 bizModel1 bizModel1 "[]" "[]"]
  by (simp add: model_inputs)

lemma getBizVersion_find:
  "getBizVersion es
     = (case find (\<lambda>e. env_Name e = ''BIZ_VERSION'') es of None \<Rightarrow> [] | Some e \<Rightarrow> env_Value e)"
  by (induction es) simp_all

text \<open>
  C2: the BizModel of a container has the container's name as BizName, its image as
  BizUrl, and as BizVersion the value of the (first) environment variable named
  BIZ_VERSION, or the empty string when the container has no such variable.
\<close>

theorem TranslateCoreV1ContainerToBizModel_fields:
  "BizName (TranslateCoreV1ContainerToBizModel c) = Name c
   \<and> BizUrl (TranslateCoreV1ContainerToBizModel c) = Image c
   \<and> BizVersion (TranslateCoreV1ContainerToBizModel c)
       = (case find (\<lambda>e. env_Name e = ''BIZ_VERSION'') (Env c) of
            None \<Rightarrow> [] | Some e \<Rightarrow> env_Value e)
   \<and> ((\<forall>e \<in> set (Env c). env_Name e \<noteq> ''BIZ_VERSION'') \<longrightarrow>
        BizVersion (TranslateCoreV1ContainerToBizModel c) = [])
   \<and> ((\<exists>e \<in> set (Env c). env_Name e = ''BIZ_VERSION'') \<longrightarrow>
        (\<exists>e \<in> set (Env c). env_Name e = ''BIZ_VERSION''
           \<and> BizVersion (TranslateCoreV1ContainerToBizModel c) = env_Value e))"
proof -
  let ?P = "\<lambda>e. env_Name e = ''BIZ_VERSION''"
  have v: "BizVersion (TranslateCoreV1ContainerToBizModel c)
             = (case find ?P (Env c) of None \<Rightarrow> [] | Some e \<Rightarrow> env_Value e)"
    by (simp add: TranslateCoreV1ContainerToBizModel_def getBizVersion_find)
  have absent: "(\<forall>e \<in> set (Env c). \<not> ?P e) \<longrightarrow>
                  BizVersion (TranslateCoreV1ContainerToBizModel c) = []"
  proof
    assume "\<forall>e \<in> set (Env c). \<not> ?P e"
    then have "find ?P (Env c) = None"
      by (simp add: find_None_iff)
    with v show "BizVersion (TranslateCoreV1ContainerToBizModel c) = []"
      by simp
  qed
  have present: "(\<exists>e \<in> set (Env c). ?P e) \<longrightarrow>
          (\<exists>e \<in> set (Env c). ?P e
             \<and> BizVersion (TranslateCoreV1ContainerToBizModel c) = env_Value e)"
  proof
    assume "\<exists>e \<in> set (Env c). ?P e"
    then obtain e where e: "find ?P (Env c) = Some e"
      by (cases "find ?P (Env c)") (auto simp: find_None_iff)
    then have "e \<in> set (Env c)" "?P e"
      by (auto simp: find_Some_iff)
    with v e show "\<exists>e \<in> set (Env c). ?P e
             \<and> BizVersion (TranslateCoreV1ContainerToBizModel c) = env_Value e"
      by auto
  qed
  show ?thesis
    using v absent present by (simp add: TranslateCoreV1ContainerToBizModel_def)
qed

theorem TranslateCoreV1ContainerToBizModel_fields_witness:
  "TranslateCoreV1ContainerToBizModel test_container
     = \<lparr>BizName = ''test_container'', BizVersion = ''1.1.1'', BizUrl = ''file:///test/test1''\<rparr>
   \<and> Env (test_container\<lparr>Env := []\<rparr>) = []
   \<and> BizVersion (TranslateCoreV1ContainerToBizModel (test_container\<lparr>Env := []\<rparr>)) = []"
  using TranslateCoreV1ContainerToBizModel_fields [of test_container]
    TranslateCoreV1ContainerToBizModel_fields [of "test_container\<lparr>Env := []\<rparr>"]
  by (simp add: TranslateCoreV1ContainerToBizModel_def model_inputs)

text \<open>
  C4: for every configuration and every node, the node after BuildVirtualNode carries
  exactly one taint and its status phase is Pending.
\<close>

theorem BuildVirtualNode_taint_and_phase:
  "length (Taints (Spec (BuildVirtualNode config node))) = 1
   \<and> Phase (Status (BuildVirtualNode config node)) = NodePending"
  by (simp add: BuildVirtualNode_def)

theorem BuildVirtualNode_taint_and_phase_witness:
  "length (Taints (Spec (BuildVirtualNode test_node_config empty_node))) = 1
   \<and> Phase (Status (BuildVirtualNode test_node_config empty_node)) = NodePending
   \<and> length (Taints (Spec (BuildVirtualNode test_node_config tainted_node))) = 1
   \<and> Phase (Status (BuildVirtualNode test_node_config tainted_node)) = NodePending"
  using BuildVirtualNode_taint_and_phase [of test_node_config empty_node]
    BuildVirtualNode_taint_and_phase [of test_node_config tainted_node]
  by simp







end
